theory Spec2Isabelle
  imports Main "HOL-Library.Sublist"
begin

section \<open>Strings\<close>

text \<open>
  A JavaScript string is modelled as a \<^typ>\<open>string\<close>, each character read as the code
  point of the same number (U+0000 to U+00FF). On that range \<open>String.prototype.trim\<close>
  removes the characters below from both ends, and \<open>toLowerCase\<close> moves the upper-case
  letters A to Z and U+00C0 to U+00DE (without U+00D7) up by 32.
\<close>

definition isWhiteSpace :: "char \<Rightarrow> bool" where
  "isWhiteSpace c =
     (c = CHR 0x09 \<or> c = CHR 0x0A \<or> c = CHR 0x0B \<or> c = CHR 0x0C \<or> c = CHR 0x0D
      \<or> c = CHR 0x20 \<or> c = CHR 0xA0)"

definition trim :: "string \<Rightarrow> string" where
  "trim s = rev (dropWhile isWhiteSpace (rev (dropWhile isWhiteSpace s)))"

definition lowerChar :: "char \<Rightarrow> char" where
  "lowerChar c =
     (let n = (of_char c :: nat)
      in if (65 \<le> n \<and> n \<le> 90) \<or> (192 \<le> n \<and> n \<le> 222 \<and> n \<noteq> 215)
         then char_of (n + 32) else c)"

definition toLowerCase :: "string \<Rightarrow> string" where
  "toLowerCase s = map lowerChar s"

text \<open>The decimal text of a number, as a template literal prints it.\<close>

fun digitsOf :: "nat \<Rightarrow> string" where
  "digitsOf n =
     (if n < 10 then [char_of (48 + n)]
      else digitsOf (n div 10) @ [char_of (48 + n mod 10)])"

section \<open>Data model\<close>

text \<open>\<open>CoreMessage\<close>: a role and a content that is a text or a list of parts.\<close>

datatype role = System | User | Assistant | Tool

datatype part =
    TextPart string
  | ToolCallPart string string
  | ToolResultPart string string

datatype content = Text string | Parts "part list"

record message =
  role :: role
  content :: content

text \<open>
  An untyped JavaScript value that the program only serialises is represented by the
  text \<open>JSON.stringify\<close> gives for it.
\<close>

type_synonym json = string

text \<open>A tool of the gateway (opaque to the program), and the mapping from names to tools.\<close>

datatype tool = ToolHandle string

type_synonym tools = "(string \<times> tool) list"

text \<open>
  What is thrown: an instance of \<open>Error\<close> with its message, or any other value
  (given by its text).
\<close>

datatype thrown = Error string | NonError json

datatype stop_condition = StepCountIs nat

definition stepCountIs :: "nat \<Rightarrow> stop_condition" where
  "stepCountIs n = StepCountIs n"

fun stepBudget :: "stop_condition \<Rightarrow> nat" where
  "stepBudget (StepCountIs n) = n"

text \<open>The argument of \<open>generateText\<close> (the callback apart, which the session runs).\<close>

record request =
  model :: string
  apiKeyOf :: string
  system :: string
  messages :: "message list"
  tools :: tools
  stopWhen :: stop_condition

text \<open>
  One step of the generation call as \<open>onStepFinish\<close> sees it. A tool call of the
  library the program imports (AI SDK v5: \<open>stepCountIs\<close>, \<open>stopWhen\<close>, the
  \<open>output\<close> of a tool result) carries its arguments as \<open>input\<close>. The callback
  reads the property \<open>args\<close>: \<open>None\<close> is a call without that property, as those of
  the library are, where reading it gives \<open>undefined\<close>.
\<close>

record toolCall =
  toolName :: string
  callInput :: json
  args :: "json option"

text \<open>
  The \<open>output\<close> of a tool result: the truthiness of its \<open>isError\<close> property and its
  serialisation. A result without an output has \<open>None\<close>.
\<close>

record toolOutput =
  isError :: bool
  outputJson :: json

record toolResult =
  resultOutput :: "toolOutput option"

record step =
  toolCalls :: "toolCall list"
  toolResults :: "toolResult list"

text \<open>The value \<open>generateText\<close> resolves to: the final text and \<open>response.messages\<close>.\<close>

record genResult =
  resultText :: string
  responseMessages :: "message list"

text \<open>
  The whole of one generation call: the steps it reports through the callback, then
  the value it resolves to or the value it throws.
\<close>

record genOutcome =
  steps :: "step list"
  final :: "thrown + genResult"

datatype mcpClient = MCPClient string

text \<open>The transport handed to \<open>experimental_createMCPClient\<close>: the URL and the headers.\<close>

record transport =
  url :: string
  headers :: "(string \<times> string) list"

text \<open>
  What passes between the program and the outside, in order: the calls the program
  makes, and what a generation call resolves to or throws.
\<close>

datatype event =
    ConsoleLog string
  | Question string
  | CreateMCPClient transport
  | ListTools mcpClient
  | GenerateText request
  | Resolved genResult
  | Rejected thrown
  | RlClose
  | McpClose mcpClient

text \<open>
  The outside: the environment variables, the tool gateway and the generation endpoint.
  The generation endpoint answers the \<open>k\<close>-th call of the session (counting from 0)
  as it likes. Closing the transport and the terminal is taken not to throw.
\<close>

record externals =
  env_OPENAI_API_KEY :: "string option"
  env_DEBUG :: "string option"
  env_CIVIC_ACCESS_TOKEN :: "string option"
  env_NEXUS_MCP_URL :: "string option"
  createMCPClient :: "transport \<Rightarrow> thrown + mcpClient"
  clientTools :: "mcpClient \<Rightarrow> thrown + tools"
  generateText :: "nat \<Rightarrow> request \<Rightarrow> genOutcome"

text \<open>The fields of \<open>ChatCLI\<close>, and the trace of what it has done so far.\<close>

record chat =
  conversationHistory :: "message list"
  apiKey :: string
  rlClosed :: bool
  mcpClient :: "mcpClient option"
  mcpTools :: tools
  debugMode :: bool
  events :: "event list"

section \<open>Constants\<close>

definition MAX_STEPS :: nat where
  "MAX_STEPS = 10"

definition SYSTEM_PROMPT :: string where
  "SYSTEM_PROMPT = ''You are a helpful assistant. When you use tools to gather information, always provide a clear, conversational response to the user based on the tool results.''"

definition DEFAULT_MCP_URL :: string where
  "DEFAULT_MCP_URL = ''https://nexus.civic.com/hub/mcp''"

text \<open>\<open>process.env.X || fallback\<close>: an unset or empty variable gives the fallback.\<close>

definition orElse :: "string option \<Rightarrow> string \<Rightarrow> string" where
  "orElse v d = (case v of None \<Rightarrow> d | Some x \<Rightarrow> if x = [] then d else x)"

definition MCP_SERVER_URL :: "externals \<Rightarrow> string" where
  "MCP_SERVER_URL ext = orElse (env_NEXUS_MCP_URL ext) DEFAULT_MCP_URL"

section \<open>The session\<close>

definition emit :: "chat \<Rightarrow> event list \<Rightarrow> chat" where
  "emit s es = s\<lparr>events := events s @ es\<rparr>"

text \<open>The requests of the generation calls in a trace, in order.\<close>

fun generationCalls :: "event list \<Rightarrow> request list" where
  "generationCalls [] = []"
| "generationCalls (GenerateText r # es) = r # generationCalls es"
| "generationCalls (e # es) = generationCalls es"

text \<open>The transcripts (\<open>response.messages\<close>) the generation calls returned, in order.\<close>

fun transcripts :: "event list \<Rightarrow> message list list" where
  "transcripts [] = []"
| "transcripts (Resolved r # es) = responseMessages r # transcripts es"
| "transcripts (e # es) = transcripts es"

text \<open>What has been written with \<open>console.log\<close>, in order.\<close>

fun consoleOutput :: "event list \<Rightarrow> string list" where
  "consoleOutput [] = []"
| "consoleOutput (ConsoleLog l # es) = l # consoleOutput es"
| "consoleOutput (e # es) = consoleOutput es"

text \<open>The constructor: the fields' initialisers and the environment.\<close>

definition newChatCLI :: "externals \<Rightarrow> chat" where
  "newChatCLI ext =
     \<lparr>conversationHistory = [],
      apiKey = orElse (env_OPENAI_API_KEY ext) [],
      rlClosed = False,
      mcpClient = None,
      mcpTools = [],
      debugMode = (env_DEBUG ext = Some ''true''),
      events = []\<rparr>"

text \<open>\<open>promptForApiKey\<close>, given the line the terminal answers with.\<close>

definition promptForApiKey :: "chat \<Rightarrow> string \<Rightarrow> chat" where
  "promptForApiKey s key =
     emit (s\<lparr>apiKey := trim key\<rparr>)
       [Question ''Enter your OpenAI API key: '',
        ConsoleLog ''API key saved for this session.\<newline>'']"

text \<open>\<open>getUserInput\<close>, given the line the terminal answers with.\<close>

definition getUserInput :: "chat \<Rightarrow> string \<Rightarrow> string \<Rightarrow> chat \<times> string" where
  "getUserInput s prompt answer = (emit s [Question prompt], trim answer)"

text \<open>The \<open>catch\<close> block of \<open>initializeMCP\<close>.\<close>

definition initializeMCP_catch :: "chat \<Rightarrow> thrown \<Rightarrow> chat" where
  "initializeMCP_catch s error =
     emit s
       ([ConsoleLog ''Warning: Could not connect to Civic MCP server.'']
        @ (case error of
             Error message \<Rightarrow> [ConsoleLog (''Error: '' @ message @ ''\<newline>'')]
           | NonError v \<Rightarrow> [])
        @ [ConsoleLog ''Continuing without MCP tools...\<newline>''])"

text \<open>
  \<open>initializeMCP\<close>. Building the transport (with \<open>new URL\<close>) and creating the client
  are one call of \<open>createMCPClient\<close>, which may throw for either.
\<close>

definition mcpTransport :: "externals \<Rightarrow> transport" where
  "mcpTransport ext =
     (let accessToken = env_CIVIC_ACCESS_TOKEN ext
      in \<lparr>url = MCP_SERVER_URL ext,
          headers = (case accessToken of
                       None \<Rightarrow> []
                     | Some t \<Rightarrow> if t = [] then []
                                else [(''Authorization'', ''Bearer '' @ t)])\<rparr>)"

definition initializeMCP :: "externals \<Rightarrow> chat \<Rightarrow> chat" where
  "initializeMCP ext s =
     (let s1 = emit s [ConsoleLog ''Connecting to Civic MCP server...''];
          tr = mcpTransport ext;
          s2 = emit s1 [CreateMCPClient tr]
      in case createMCPClient ext tr of
           Inl error \<Rightarrow> initializeMCP_catch s2 error
         | Inr client \<Rightarrow>
             (let s3 = emit (s2\<lparr>mcpClient := Some client\<rparr>) [ListTools client]
              in case clientTools ext client of
                   Inl error \<Rightarrow> initializeMCP_catch s3 error
                 | Inr ts \<Rightarrow>
                     (let s4 = s3\<lparr>mcpTools := ts\<rparr>;
                          toolCount = length (remdups (map fst (mcpTools s4)))
                      in emit s4
                           [ConsoleLog (''Connected! Loaded '' @ digitsOf toolCount
                                        @ '' tools from Civic MCP.\<newline>'')])))"

text \<open>
  The try block of \<open>initializeMCP\<close> throws the value \<open>e\<close>: creating the client does,
  or listing the client's tools does.
\<close>

definition initializeFails :: "externals \<Rightarrow> thrown \<Rightarrow> bool" where
  "initializeFails ext e =
     (case createMCPClient ext (mcpTransport ext) of
        Inl x \<Rightarrow> x = e
      | Inr client \<Rightarrow> clientTools ext client = Inl e)"

text \<open>Some line written to the console contains the text \<open>m\<close>.\<close>

definition logged :: "string \<Rightarrow> chat \<Rightarrow> bool" where
  "logged m s = list_ex (sublist m) (consoleOutput (events s))"

text \<open>\<open>log\<close>: what it writes.\<close>

definition log :: "bool \<Rightarrow> string \<Rightarrow> event list" where
  "log dbg message = (if dbg then [ConsoleLog message] else [])"

text \<open>\<open>JSON.stringify(call.args)\<close> inside a template literal.\<close>

definition stringifyArgs :: "toolCall \<Rightarrow> string" where
  "stringifyArgs call = (case args call of None \<Rightarrow> ''undefined'' | Some j \<Rightarrow> j)"

definition onToolCall :: "bool \<Rightarrow> toolCall \<Rightarrow> event list" where
  "onToolCall dbg call =
     ConsoleLog (''\<newline>[Using tool: '' @ toolName call @ '']'')
     # log dbg (''[Args: '' @ stringifyArgs call @ '']'')"

text \<open>\<open>result.output?.isError || false\<close>.\<close>

definition resultIsError :: "toolResult \<Rightarrow> bool" where
  "resultIsError result =
     (case resultOutput result of None \<Rightarrow> False | Some out \<Rightarrow> isError out)"

text \<open>\<open>JSON.stringify(result.output)\<close> inside a template literal.\<close>

definition stringifyOutput :: "toolResult \<Rightarrow> json" where
  "stringifyOutput result =
     (case resultOutput result of None \<Rightarrow> ''undefined'' | Some out \<Rightarrow> outputJson out)"

definition onToolResult :: "bool \<Rightarrow> toolResult \<Rightarrow> event list" where
  "onToolResult dbg result =
     (if resultIsError result
      then ConsoleLog ''[Tool failed]''
           # log dbg (''[Error: '' @ stringifyOutput result @ '']'')
      else log dbg ''[Tool completed successfully]'')"

text \<open>The callback \<open>onStepFinish\<close>: what it writes for one step.\<close>

definition onStepFinish :: "bool \<Rightarrow> step \<Rightarrow> event list" where
  "onStepFinish dbg st =
     concat (map (onToolCall dbg) (toolCalls st))
     @ concat (map (onToolResult dbg) (toolResults st))"

definition mkRequest :: "chat \<Rightarrow> request" where
  "mkRequest s =
     \<lparr>model = ''gpt-4o-mini'',
      apiKeyOf = apiKey s,
      system = SYSTEM_PROMPT,
      messages = conversationHistory s,
      tools = mcpTools s,
      stopWhen = stepCountIs MAX_STEPS\<rparr>"

text \<open>\<open>this.conversationHistory.push({role: 'user', content: userMessage})\<close>.\<close>

definition pushUser :: "chat \<Rightarrow> string \<Rightarrow> chat" where
  "pushUser s userMessage =
     s\<lparr>conversationHistory :=
         conversationHistory s @ [\<lparr>role = User, content = Text userMessage\<rparr>]\<rparr>"

text \<open>The generation call of a state: the endpoint's answer to the session's next call.\<close>

definition callGenerateText :: "externals \<Rightarrow> chat \<Rightarrow> genOutcome" where
  "callGenerateText ext s =
     generateText ext (length (generationCalls (events s))) (mkRequest s)"

text \<open>\<open>sendMessage\<close>: the new state and the string it returns.\<close>

definition sendMessage :: "externals \<Rightarrow> chat \<Rightarrow> string \<Rightarrow> chat \<times> string" where
  "sendMessage ext s userMessage =
     (let s1 = pushUser s userMessage;
          out = callGenerateText ext s1;
          s2 = emit s1 (GenerateText (mkRequest s1)
                        # concat (map (onStepFinish (debugMode s1)) (steps out)))
      in case final out of
           Inr result \<Rightarrow>
             (emit s2 [Resolved result]\<lparr>conversationHistory := responseMessages result\<rparr>,
              if resultText result = [] then ''No response generated.'' else resultText result)
         | Inl error \<Rightarrow>
             (emit s2 [Rejected error],
              case error of
                Error message \<Rightarrow> ''Error: '' @ message
              | NonError v \<Rightarrow> ''An unknown error occurred.''))"

section \<open>The main loop\<close>

datatype control = Break | Continue

datatype status = Exited | AwaitingInput

text \<open>One pass through the body of the \<open>while\<close> loop of \<open>start\<close>, on one line.\<close>

definition start_iteration :: "externals \<Rightarrow> chat \<Rightarrow> string \<Rightarrow> chat \<times> control" where
  "start_iteration ext s answer =
     (let (s1, userInput) = getUserInput s ''You: '' answer
      in if toLowerCase userInput = ''exit'' \<or> toLowerCase userInput = ''quit'' then
           (let s2 = emit s1 [ConsoleLog ''\<newline>Goodbye!''];
                s3 = emit (s2\<lparr>rlClosed := True\<rparr>) [RlClose];
                s4 = (case mcpClient s3 of
                        None \<Rightarrow> s3
                      | Some client \<Rightarrow> emit s3 [McpClose client])
            in (s4, Break))
         else if userInput = [] then (s1, Continue)
         else
           (let (s2, response) = sendMessage ext s1 userInput
            in (emit s2 [ConsoleLog (''\<newline>Assistant: '' @ response @ ''\<newline>'')],
                Continue)))"

text \<open>
  The loop over the lines the terminal delivers. When they run out the program is left
  at its prompt.
\<close>

fun start_loop :: "externals \<Rightarrow> chat \<Rightarrow> string list \<Rightarrow> chat \<times> status" where
  "start_loop ext s [] = (emit s [Question ''You: ''], AwaitingInput)"
| "start_loop ext s (answer # rest) =
     (case start_iteration ext s answer of
        (s', Break) \<Rightarrow> (s', Exited)
      | (s', Continue) \<Rightarrow> start_loop ext s' rest)"

text \<open>\<open>start\<close> from the call of \<open>initializeMCP\<close> on.\<close>

definition start_session :: "externals \<Rightarrow> chat \<Rightarrow> string list \<Rightarrow> chat \<times> status" where
  "start_session ext s answers =
     (let s1 = initializeMCP ext s;
          s2 = emit s1
                 [ConsoleLog ''Type your message and press Enter to chat.'',
                  ConsoleLog ''Type \"exit\" or \"quit\" to end the conversation.\<newline>'']
      in start_loop ext s2 answers)"

definition start :: "externals \<Rightarrow> chat \<Rightarrow> string list \<Rightarrow> chat \<times> status" where
  "start ext s answers =
     (let s1 = emit s
                 [ConsoleLog ''=== Nexus CLI - AI Chat ==='',
                  ConsoleLog ''Powered by Vercel AI SDK v5\<newline>'']
      in if apiKey s1 = [] then
           (case answers of
              [] \<Rightarrow> (emit s1 [Question ''Enter your OpenAI API key: ''], AwaitingInput)
            | key # rest \<Rightarrow> start_session ext (promptForApiKey s1 key) rest)
         else
           start_session ext (emit s1 [ConsoleLog ''Using API key from .env file\<newline>''])
             answers)"

text \<open>The program: \<open>new ChatCLI().start()\<close>.\<close>

definition main :: "externals \<Rightarrow> string list \<Rightarrow> chat \<times> status" where
  "main ext answers = start ext (newChatCLI ext) answers"

section \<open>The rounds inside a generation call\<close>

text \<open>
  What the language model answers in one round: a text and the tool calls it proposes.
\<close>

record modelReply =
  replyText :: string
  replyCalls :: "toolCall list"

definition callPart :: "toolCall \<Rightarrow> part" where
  "callPart call = ToolCallPart (toolName call) (callInput call)"

definition resultPart :: "toolCall \<Rightarrow> toolResult \<Rightarrow> part" where
  "resultPart call result =
     ToolResultPart (toolName call)
       (case resultOutput result of None \<Rightarrow> ''null'' | Some out \<Rightarrow> outputJson out)"

text \<open>
  Modelled from the spec: the rounds of one generation call. The call is the library's
  \<open>generateText\<close>, which is not under src/. The spec says of the step
  budget that the call "may itself perform up to 10 internal rounds of model proposes
  tool call, adapter tool is invoked, result fed back to model, before being forced to
  stop and return whatever text it has". The language model and the tools are
  parameters; the third argument is the budget left.
\<close>

fun generationRounds ::
  "(message list \<Rightarrow> modelReply) \<Rightarrow> (toolCall \<Rightarrow> toolResult) \<Rightarrow> nat \<Rightarrow> message list \<Rightarrow> string
     \<Rightarrow> step list \<times> string \<times> message list" where
  "generationRounds llm invoke 0 msgs txt = ([], txt, msgs)"
| "generationRounds llm invoke (Suc budget) msgs txt =
     (let reply = llm msgs
      in if replyCalls reply = [] then
           ([\<lparr>toolCalls = [], toolResults = []\<rparr>],
            replyText reply,
            msgs @ [\<lparr>role = Assistant, content = Text (replyText reply)\<rparr>])
         else
           (let results = map invoke (replyCalls reply);
                st = \<lparr>toolCalls = replyCalls reply, toolResults = results\<rparr>;
                msgs' = msgs
                  @ [\<lparr>role = Assistant,
                      content = Parts (TextPart (replyText reply) # map callPart (replyCalls reply))\<rparr>,
                     \<lparr>role = Tool,
                      content = Parts (map2 resultPart (replyCalls reply) results)\<rparr>];
                (sts, t, ms) = generationRounds llm invoke budget msgs' (replyText reply)
            in (st # sts, t, ms)))"

text \<open>
  Modelled from the spec: the generation call (the library's \<open>generateText\<close>, not
  under src/) as the rounds above, with the budget the request carries.
\<close>

definition generateTextRounds ::
  "(message list \<Rightarrow> modelReply) \<Rightarrow> (toolCall \<Rightarrow> toolResult) \<Rightarrow> request \<Rightarrow> genOutcome" where
  "generateTextRounds llm invoke req =
     (let (sts, t, ms) =
            generationRounds llm invoke (stepBudget (stopWhen req)) (messages req) []
      in \<lparr>steps = sts, final = Inr \<lparr>resultText = t, responseMessages = ms\<rparr>\<rparr>)"

section \<open>Concrete sessions\<close>

text \<open>An endpoint that answers every request with the messages it was sent and a reply.\<close>

definition echoEndpoint :: "nat \<Rightarrow> request \<Rightarrow> genOutcome" where
  "echoEndpoint k req =
     \<lparr>steps = [],
      final = Inr \<lparr>resultText = ''ok'',
                   responseMessages =
                     messages req @ [\<lparr>role = Assistant, content = Text ''ok''\<rparr>]\<rparr>\<rparr>"

text \<open>
  An endpoint whose transcript holds the messages generated during the call and no
  others, which is what \<open>response.messages\<close> of the library is.
\<close>

definition replyOnlyEndpoint :: "nat \<Rightarrow> request \<Rightarrow> genOutcome" where
  "replyOnlyEndpoint k req =
     \<lparr>steps = [],
      final = Inr \<lparr>resultText = ''ok'',
                   responseMessages = [\<lparr>role = Assistant, content = Text ''ok''\<rparr>]\<rparr>\<rparr>"

text \<open>An endpoint whose every call throws the given value.\<close>

definition failingEndpoint :: "thrown \<Rightarrow> nat \<Rightarrow> request \<Rightarrow> genOutcome" where
  "failingEndpoint e k req = \<lparr>steps = [], final = Inl e\<rparr>"

text \<open>An endpoint that produces no text.\<close>

definition silentEndpoint :: "nat \<Rightarrow> request \<Rightarrow> genOutcome" where
  "silentEndpoint k req =
     \<lparr>steps = [], final = Inr \<lparr>resultText = [], responseMessages = messages req\<rparr>\<rparr>"

text \<open>A gateway that serves one tool, and one whose connection throws the given value.\<close>

definition servingGateway :: "transport \<Rightarrow> thrown + mcpClient" where
  "servingGateway tr = Inr (MCPClient (url tr))"

definition failingGateway :: "thrown \<Rightarrow> transport \<Rightarrow> thrown + mcpClient" where
  "failingGateway e tr = Inl e"

definition testExt ::
  "(transport \<Rightarrow> thrown + mcpClient) \<Rightarrow> (nat \<Rightarrow> request \<Rightarrow> genOutcome) \<Rightarrow> externals" where
  "testExt gateway endpoint =
     \<lparr>env_OPENAI_API_KEY = Some ''sk-test'',
      env_DEBUG = None,
      env_CIVIC_ACCESS_TOKEN = None,
      env_NEXUS_MCP_URL = None,
      createMCPClient = gateway,
      clientTools = (\<lambda>client. Inr [(''search'', ToolHandle ''search'')]),
      generateText = endpoint\<rparr>"

text \<open>A language model that proposes a tool call in every round, and a tool.\<close>

definition eagerModel :: "message list \<Rightarrow> modelReply" where
  "eagerModel msgs =
     \<lparr>replyText = ''working'',
      replyCalls = [\<lparr>toolName = ''search'', callInput = ''{}'', args = None\<rparr>]\<rparr>"

definition okTool :: "toolCall \<Rightarrow> toolResult" where
  "okTool call = \<lparr>resultOutput = Some \<lparr>isError = False, outputJson = ''{}''\<rparr>\<rparr>"

section \<open>Traces and state: basic facts\<close>

lemma generationCalls_append [simp]:
  "generationCalls (xs @ ys) = generationCalls xs @ generationCalls ys"
  by (induction xs rule: generationCalls.induct) simp_all

lemma transcripts_append [simp]:
  "transcripts (xs @ ys) = transcripts xs @ transcripts ys"
  by (induction xs rule: transcripts.induct) simp_all

lemma consoleOutput_append [simp]:
  "consoleOutput (xs @ ys) = consoleOutput xs @ consoleOutput ys"
  by (induction xs rule: consoleOutput.induct) simp_all

lemma generationCalls_log [simp]: "generationCalls (log dbg m) = []"
  by (simp add: log_def)

lemma transcripts_log [simp]: "transcripts (log dbg m) = []"
  by (simp add: log_def)

lemma generationCalls_onStepFinish [simp]: "generationCalls (onStepFinish dbg st) = []"
proof -
  have c: "generationCalls (concat (map (onToolCall dbg) cs)) = []" for cs
    by (induction cs) (simp_all add: onToolCall_def)
  have r: "generationCalls (concat (map (onToolResult dbg) rs)) = []" for rs
    by (induction rs) (simp_all add: onToolResult_def)
  show ?thesis by (simp add: onStepFinish_def c r)
qed

lemma transcripts_onStepFinish [simp]: "transcripts (onStepFinish dbg st) = []"
proof -
  have c: "transcripts (concat (map (onToolCall dbg) cs)) = []" for cs
    by (induction cs) (simp_all add: onToolCall_def)
  have r: "transcripts (concat (map (onToolResult dbg) rs)) = []" for rs
    by (induction rs) (simp_all add: onToolResult_def)
  show ?thesis by (simp add: onStepFinish_def c r)
qed

lemma generationCalls_steps [simp]:
  "generationCalls (concat (map (onStepFinish dbg) sts)) = []"
  by (induction sts) simp_all

lemma transcripts_steps [simp]:
  "transcripts (concat (map (onStepFinish dbg) sts)) = []"
  by (induction sts) simp_all

lemma emit_simps [simp]:
  "events (emit s es) = events s @ es"
  "conversationHistory (emit s es) = conversationHistory s"
  "mcpTools (emit s es) = mcpTools s"
  "mcpClient (emit s es) = mcpClient s"
  "debugMode (emit s es) = debugMode s"
  "rlClosed (emit s es) = rlClosed s"
  "apiKey (emit s es) = apiKey s"
  by (simp_all add: emit_def)

lemma pushUser_simps [simp]:
  "conversationHistory (pushUser s u) = conversationHistory s @ [\<lparr>role = User, content = Text u\<rparr>]"
  "events (pushUser s u) = events s"
  "mcpTools (pushUser s u) = mcpTools s"
  "mcpClient (pushUser s u) = mcpClient s"
  "debugMode (pushUser s u) = debugMode s"
  "rlClosed (pushUser s u) = rlClosed s"
  "apiKey (pushUser s u) = apiKey s"
  by (simp_all add: pushUser_def)

lemma trim_blank:
  assumes "\<forall>c\<in>set line. isWhiteSpace c"
  shows "trim line = []"
proof -
  have d: "dropWhile isWhiteSpace line = []"
    using assms by (simp add: dropWhile_eq_Nil_conv)
  show ?thesis unfolding trim_def d by simp
qed

lemma toLowerCase_Nil [simp]: "toLowerCase [] = []"
  by (simp add: toLowerCase_def)

lemma lowerChar_white: "isWhiteSpace c \<Longrightarrow> lowerChar c = c"
  by (auto simp add: isWhiteSpace_def lowerChar_def)

lemma trim_ends:
  assumes "\<not> isWhiteSpace a" "\<not> isWhiteSpace d"
  shows "trim (a # bs @ [d]) = a # bs @ [d]"
  using assms by (simp add: trim_def)

lemma four_letters:
  assumes "map f line = [w, x, y, z]"
  obtains a b c d where "line = [a, b, c, d]" "f a = w" "f d = z"
  using assms by (auto simp add: map_eq_Cons_conv)

lemma control_word_untrimmed:
  assumes "toLowerCase line = ''exit'' \<or> toLowerCase line = ''quit''"
  shows "trim line = line"
proof -
  from assms obtain a b c d where l: "line = [a, b, c, d]"
    and a: "lowerChar a = CHR ''e'' \<or> lowerChar a = CHR ''q''"
    and d: "lowerChar d = CHR ''t''"
    unfolding toLowerCase_def by (auto elim!: four_letters)
  have "\<not> isWhiteSpace a"
  proof
    assume w: "isWhiteSpace a"
    then have "lowerChar a = a" by (rule lowerChar_white)
    with a w show False by (auto simp add: isWhiteSpace_def)
  qed
  moreover have "\<not> isWhiteSpace d"
  proof
    assume w: "isWhiteSpace d"
    then have "lowerChar d = d" by (rule lowerChar_white)
    with d w show False by (auto simp add: isWhiteSpace_def)
  qed
  ultimately show ?thesis
    using trim_ends [of a d "[b, c]"] by (simp add: l)
qed

lemma start_iteration_control:
  assumes "toLowerCase (trim line) = ''exit'' \<or> toLowerCase (trim line) = ''quit''"
  shows "start_iteration ext s line =
     ((case mcpClient s of
         None \<Rightarrow> emit (emit (emit s [Question ''You: '']) [ConsoleLog ''\<newline>Goodbye!''] \<lparr>rlClosed := True\<rparr>) [RlClose]
       | Some client \<Rightarrow> emit (emit (emit (emit s [Question ''You: '']) [ConsoleLog ''\<newline>Goodbye!''] \<lparr>rlClosed := True\<rparr>) [RlClose]) [McpClose client]), Break)"
  using assms by (auto simp add: start_iteration_def getUserInput_def Let_def split: option.split)

lemma start_iteration_Break_iff:
  "snd (start_iteration ext s line) = Break
     \<longleftrightarrow> toLowerCase (trim line) = ''exit'' \<or> toLowerCase (trim line) = ''quit''"
  by (simp add: start_iteration_def getUserInput_def Let_def split_beta)

lemma start_iteration_send:
  assumes "trim line \<noteq> []" "toLowerCase (trim line) \<noteq> ''exit''" "toLowerCase (trim line) \<noteq> ''quit''"
  shows "start_iteration ext s line =
     (emit (fst (sendMessage ext (emit s [Question ''You: '']) (trim line)))
        [ConsoleLog (''\<newline>Assistant: ''
                     @ snd (sendMessage ext (emit s [Question ''You: '']) (trim line))
                     @ ''\<newline>'')],
      Continue)"
  using assms by (simp add: start_iteration_def getUserInput_def Let_def split_beta)

lemma consoleOutput_log [simp]: "consoleOutput (log dbg m) = (if dbg then [m] else [])"
  by (simp add: log_def)

lemma mcpTools_sendMessage [simp]: "mcpTools (fst (sendMessage ext s u)) = mcpTools s"
  by (simp add: sendMessage_def Let_def split: sum.split)

lemma mcpTools_start_iteration [simp]:
  "mcpTools (fst (start_iteration ext s line)) = mcpTools s"
  by (simp add: start_iteration_def getUserInput_def Let_def split_beta split: option.split)

lemma mcpTools_start_loop [simp]:
  "mcpTools (fst (start_loop ext s answers)) = mcpTools s"
proof (induction answers arbitrary: s)
  case Nil
  show ?case by simp
next
  case (Cons line rest)
  obtain s' c where it: "start_iteration ext s line = (s', c)"
    by (cases "start_iteration ext s line")
  have "mcpTools (fst (start_iteration ext s line)) = mcpTools s"
    by (rule mcpTools_start_iteration)
  then have "mcpTools s' = mcpTools s"
    by (simp only: it fst_conv)
  then show ?case
    using Cons.IH [of s'] it by (cases c) simp_all
qed

lemma mcpTools_initializeMCP_catch [simp]:
  "mcpTools (initializeMCP_catch s e) = mcpTools s"
  by (simp add: initializeMCP_catch_def)

lemma mcpTools_initializeMCP:
  "mcpTools (initializeMCP ext s)
     = (case createMCPClient ext (mcpTransport ext) of
          Inl e \<Rightarrow> mcpTools s
        | Inr client \<Rightarrow>
            (case clientTools ext client of Inl e \<Rightarrow> mcpTools s | Inr ts \<Rightarrow> ts))"
  by (simp add: initializeMCP_def Let_def split: sum.split)

lemma mcpTools_start_session:
  "mcpTools (fst (start_session ext s answers)) = mcpTools (initializeMCP ext s)"
  by (simp add: start_session_def Let_def)

lemma mcpTools_promptForApiKey [simp]: "mcpTools (promptForApiKey s key) = mcpTools s"
  by (simp add: promptForApiKey_def)

lemma mcpTools_start:
  "mcpTools (fst (start ext s answers)) = mcpTools s
   \<or> mcpTools (fst (start ext s answers)) = mcpTools (initializeMCP ext s)"
proof (cases "apiKey s = [] \<and> answers = []")
  case True
  then show ?thesis by (simp add: start_def Let_def)
next
  case False
  have "mcpTools (fst (start ext s answers)) = mcpTools (initializeMCP ext s)"
  proof (cases "apiKey s = []")
    case True
    with False obtain key rest where "answers = key # rest"
      by (cases answers) auto
    with True show ?thesis
      by (simp add: start_def Let_def mcpTools_start_session mcpTools_initializeMCP
          split: sum.split)
  next
    case False
    then show ?thesis
      by (simp add: start_def Let_def mcpTools_start_session mcpTools_initializeMCP
          split: sum.split)
  qed
  then show ?thesis by simp
qed

lemma consoleOutput_initializeMCP_catch [simp]:
  "consoleOutput (events (initializeMCP_catch s e))
     = consoleOutput (events s)
       @ [''Warning: Could not connect to Civic MCP server.'']
       @ (case e of Error message \<Rightarrow> [''Error: '' @ message @ ''\<newline>''] | NonError v \<Rightarrow> [])
       @ [''Continuing without MCP tools...\<newline>'']"
  by (simp add: initializeMCP_catch_def split: thrown.split)

lemma initializeMCP_fails:
  assumes "initializeFails ext e"
  shows "consoleOutput (events (initializeMCP ext s))
           = consoleOutput (events s)
             @ [''Connecting to Civic MCP server...'',
                ''Warning: Could not connect to Civic MCP server.'']
             @ (case e of Error message \<Rightarrow> [''Error: '' @ message @ ''\<newline>''] | NonError v \<Rightarrow> [])
             @ [''Continuing without MCP tools...\<newline>'']"
    and "mcpTools (initializeMCP ext s) = mcpTools s"
  using assms
  by (auto simp add: initializeFails_def initializeMCP_def Let_def split: sum.splits)



section \<open>Facts about the concrete sessions\<close>

lemmas fixture_defs =
  testExt_def echoEndpoint_def replyOnlyEndpoint_def failingEndpoint_def silentEndpoint_def servingGateway_def
  failingGateway_def newChatCLI_def callGenerateText_def mkRequest_def pushUser_def orElse_def

lemma echo_first_call:
  "final (callGenerateText (testExt servingGateway echoEndpoint)
            (pushUser (newChatCLI (testExt servingGateway echoEndpoint)) ''hi''))
     = Inr \<lparr>resultText = ''ok'',
            responseMessages = [\<lparr>role = User, content = Text ''hi''\<rparr>,
                                \<lparr>role = Assistant, content = Text ''ok''\<rparr>]\<rparr>"
  by (simp add: fixture_defs)

lemma lower_QuIt: "toLowerCase (trim ''QuIt'') = ''quit''"
  by code_simp

lemma silent_first_call:
  "final (callGenerateText (testExt servingGateway silentEndpoint)
            (pushUser (newChatCLI (testExt servingGateway silentEndpoint)) ''hi''))
     = Inr \<lparr>resultText = [],
            responseMessages = [\<lparr>role = User, content = Text ''hi''\<rparr>]\<rparr>"
  by (simp add: fixture_defs)

lemma failing_first_call:
  "final (callGenerateText (testExt servingGateway (failingEndpoint e))
            (pushUser (newChatCLI (testExt servingGateway (failingEndpoint e))) u))
     = Inl e"
  by (simp add: fixture_defs)

lemma refused_fails:
  "initializeFails (testExt (failingGateway e) endpoint) e"
  by (simp add: initializeFails_def testExt_def failingGateway_def)

lemma echo_after_init:
  "final (callGenerateText (testExt gateway echoEndpoint) (pushUser s u))
     = Inr \<lparr>resultText = ''ok'',
            responseMessages = conversationHistory s @ [\<lparr>role = User, content = Text u\<rparr>,
                                \<lparr>role = Assistant, content = Text ''ok''\<rparr>]\<rparr>"
  by (simp add: callGenerateText_def testExt_def echoEndpoint_def mkRequest_def)

lemma eager_rounds_length:
  "length (fst (generationRounds eagerModel invoke n msgs acc)) = n"
  by (induction n arbitrary: msgs acc) (simp_all add: eagerModel_def Let_def split_beta)

lemma eager_rounds_text:
  "fst (snd (generationRounds eagerModel invoke n msgs acc))
     = (if n = 0 then acc else ''working'')"
  by (induction n arbitrary: msgs acc) (simp_all add: eagerModel_def Let_def split_beta)

lemma eager_generateTextRounds:
  "length (steps (generateTextRounds eagerModel invoke (mkRequest s))) = 10
   \<and> (\<exists>r. final (generateTextRounds eagerModel invoke (mkRequest s)) = Inr r
            \<and> resultText r = ''working'')"
proof -
  have b: "stepBudget (stopWhen (mkRequest s)) = Suc 9"
    by (simp add: mkRequest_def stepCountIs_def MAX_STEPS_def)
  show ?thesis
    unfolding generateTextRounds_def b
    using eager_rounds_length [of invoke "Suc 9" "messages (mkRequest s)" "[]"]
          eager_rounds_text [of invoke "Suc 9" "messages (mkRequest s)" "[]"]
    by (simp add: split_beta del: generationRounds.simps)
qed

section \<open>History after a successful turn\<close>

text \<open>
  What \<open>sendMessage\<close> does to the history when the generation call resolves: it
  assigns the transcript of the response, whatever the history was, after issuing one
  request built from the history with the user message appended.
\<close>

lemma sendMessage_resolved:
  assumes "final (callGenerateText ext (pushUser s u)) = Inr r"
  shows "conversationHistory (fst (sendMessage ext s u)) = responseMessages r
       \<and> transcripts (events (fst (sendMessage ext s u)))
           = transcripts (events s) @ [responseMessages r]
       \<and> generationCalls (events (fst (sendMessage ext s u)))
           = generationCalls (events s) @ [mkRequest (pushUser s u)]"
  using assms by (simp add: sendMessage_def Let_def)

text \<open>
  C1. The code does not keep what the claim says. Two successful turns, \<open>a\<close> then
  \<open>b\<close>, against an endpoint whose transcript holds the messages generated during the
  call: the history after the second turn is the last reply alone, one message, where
  the two transcripts hold two; both user messages and the first reply are gone; and
  the second request went out without the first turn.
\<close>

theorem history_drops_what_was_sent:
  "conversationHistory (fst (main (testExt servingGateway replyOnlyEndpoint) [''a'', ''b'']))
     = [\<lparr>role = Assistant, content = Text ''ok''\<rparr>]
   \<and> map messages (generationCalls (events
         (fst (main (testExt servingGateway replyOnlyEndpoint) [''a'', ''b'']))))
     = [[\<lparr>role = User, content = Text ''a''\<rparr>],
        [\<lparr>role = Assistant, content = Text ''ok''\<rparr>, \<lparr>role = User, content = Text ''b''\<rparr>]]
   \<and> sum_list (map length (transcripts (events
         (fst (main (testExt servingGateway replyOnlyEndpoint) [''a'', ''b''])))))
     = 2"
proof (intro conjI)
  show "conversationHistory (fst (main (testExt servingGateway replyOnlyEndpoint) [''a'', ''b'']))
     = [\<lparr>role = Assistant, content = Text ''ok''\<rparr>]"
    by code_simp
  show "map messages (generationCalls (events
         (fst (main (testExt servingGateway replyOnlyEndpoint) [''a'', ''b'']))))
     = [[\<lparr>role = User, content = Text ''a''\<rparr>],
        [\<lparr>role = Assistant, content = Text ''ok''\<rparr>, \<lparr>role = User, content = Text ''b''\<rparr>]]"
    by code_simp
  show "sum_list (map length (transcripts (events
         (fst (main (testExt servingGateway replyOnlyEndpoint) [''a'', ''b''])))))
     = 2"
    by code_simp
qed

section \<open>Blank lines\<close>

text \<open>
  C3. In every pass of the main loop, a line that is empty or made of white space only
  issues no generation call and leaves the history as it was; the loop goes on to the
  next line.
\<close>

theorem blank_line_is_skipped:
  assumes "\<forall>c\<in>set line. isWhiteSpace c"
  shows "start_iteration ext s line = (emit s [Question ''You: ''], Continue)
       \<and> generationCalls (events (fst (start_iteration ext s line))) = generationCalls (events s)
       \<and> conversationHistory (fst (start_iteration ext s line)) = conversationHistory s
       \<and> start_loop ext s (line # rest) = start_loop ext (emit s [Question ''You: '']) rest"
proof -
  have "trim line = []" using assms by (rule trim_blank)
  then have it: "start_iteration ext s line = (emit s [Question ''You: ''], Continue)"
    by (simp add: start_iteration_def getUserInput_def)
  then show ?thesis by simp
qed

text \<open>C3 at a line of three spaces.\<close>

theorem blank_line_is_skipped_witness:
  "start_iteration (testExt servingGateway echoEndpoint)
     (newChatCLI (testExt servingGateway echoEndpoint)) ''   ''
   = (emit (newChatCLI (testExt servingGateway echoEndpoint)) [Question ''You: ''], Continue)"
proof -
  have "\<forall>c\<in>set ''   ''. isWhiteSpace c"
    by (simp add: isWhiteSpace_def)
  from blank_line_is_skipped [OF this] show ?thesis by blast
qed

section \<open>The control commands\<close>

text \<open>
  C4. A line that reads \<open>exit\<close> or \<open>quit\<close> in any case (as \<open>getUserInput\<close> returns
  it, trimmed) shuts the session down: no generation call is issued, the terminal
  interface is closed, the transport is closed exactly when the client handle is set,
  and the loop exits without reading further lines. No other line ends the loop. A line
  that is itself one of the two words in some case is returned by \<open>getUserInput\<close>
  as it is.
\<close>

theorem exit_and_quit_shut_down:
  "(toLowerCase (trim line) = ''exit'' \<or> toLowerCase (trim line) = ''quit'' \<longrightarrow>
      events (fst (start_iteration ext s line))
        = events s @ [Question ''You: '', ConsoleLog ''\<newline>Goodbye!'', RlClose]
          @ (case mcpClient s of None \<Rightarrow> [] | Some client \<Rightarrow> [McpClose client])
      \<and> generationCalls (events (fst (start_iteration ext s line))) = generationCalls (events s)
      \<and> conversationHistory (fst (start_iteration ext s line)) = conversationHistory s
      \<and> rlClosed (fst (start_iteration ext s line))
      \<and> start_loop ext s (line # rest) = (fst (start_iteration ext s line), Exited))
   \<and> (snd (start_iteration ext s line) = Break
        \<longleftrightarrow> toLowerCase (trim line) = ''exit'' \<or> toLowerCase (trim line) = ''quit'')
   \<and> (toLowerCase line = ''exit'' \<or> toLowerCase line = ''quit'' \<longrightarrow> trim line = line)"
proof (intro conjI impI)
  assume c: "toLowerCase (trim line) = ''exit'' \<or> toLowerCase (trim line) = ''quit''"
  note it = start_iteration_control [OF c, of ext s]
  show "events (fst (start_iteration ext s line))
        = events s @ [Question ''You: '', ConsoleLog ''\<newline>Goodbye!'', RlClose]
          @ (case mcpClient s of None \<Rightarrow> [] | Some client \<Rightarrow> [McpClose client])"
    by (simp add: it split: option.split)
  show "generationCalls (events (fst (start_iteration ext s line))) = generationCalls (events s)"
    by (simp add: it split: option.split)
  show "conversationHistory (fst (start_iteration ext s line)) = conversationHistory s"
    by (simp add: it split: option.split)
  show "rlClosed (fst (start_iteration ext s line))"
    by (simp add: it split: option.split)
  show "start_loop ext s (line # rest) = (fst (start_iteration ext s line), Exited)"
    by (simp add: it)
next
  show "snd (start_iteration ext s line) = Break
        \<longleftrightarrow> toLowerCase (trim line) = ''exit'' \<or> toLowerCase (trim line) = ''quit''"
    by (rule start_iteration_Break_iff)
next
  assume "toLowerCase line = ''exit'' \<or> toLowerCase line = ''quit''"
  then show "trim line = line"
    by (rule control_word_untrimmed)
qed

text \<open>C4 at the line \<open>QuIt\<close>, with a client connected.\<close>

theorem exit_and_quit_shut_down_witness:
  "events (fst (start_iteration (testExt servingGateway echoEndpoint)
                  (newChatCLI (testExt servingGateway echoEndpoint)
                     \<lparr>mcpClient := Some (MCPClient ''hub'')\<rparr>) ''QuIt''))
     = [Question ''You: '', ConsoleLog ''\<newline>Goodbye!'', RlClose, McpClose (MCPClient ''hub'')]
   \<and> snd (start_iteration (testExt servingGateway echoEndpoint)
                  (newChatCLI (testExt servingGateway echoEndpoint)
                     \<lparr>mcpClient := Some (MCPClient ''hub'')\<rparr>) ''QuIt'') = Break"
  using exit_and_quit_shut_down
          [of "''QuIt''" "testExt servingGateway echoEndpoint"
              "newChatCLI (testExt servingGateway echoEndpoint) \<lparr>mcpClient := Some (MCPClient ''hub'')\<rparr>"]
        lower_QuIt
  by (simp add: newChatCLI_def)

section \<open>What a turn returns\<close>

text \<open>
  C8. A successful generation call that produces no final text makes \<open>sendMessage\<close>
  return the literal \<open>No response generated.\<close>; otherwise it returns the final text of
  the response.
\<close>

theorem reply_text_or_fallback:
  assumes "final (callGenerateText ext (pushUser s u)) = Inr r"
  shows "snd (sendMessage ext s u)
           = (if resultText r = [] then ''No response generated.'' else resultText r)"
  using assms by (simp add: sendMessage_def Let_def)

text \<open>C8 at an endpoint that produces no text, and at one that answers \<open>ok\<close>.\<close>

theorem reply_text_or_fallback_witness:
  "snd (sendMessage (testExt servingGateway silentEndpoint)
          (newChatCLI (testExt servingGateway silentEndpoint)) ''hi'') = ''No response generated.''
   \<and> snd (sendMessage (testExt servingGateway echoEndpoint)
          (newChatCLI (testExt servingGateway echoEndpoint)) ''hi'') = ''ok''"
  using reply_text_or_fallback [OF silent_first_call] reply_text_or_fallback [OF echo_first_call]
  by simp

section \<open>A failed generation call\<close>

text \<open>
  C10. When the generation call throws a value that is not an instance of \<open>Error\<close>,
  \<open>sendMessage\<close> returns exactly \<open>An unknown error occurred.\<close>, which does not start
  with \<open>Error: \<close>; when an instance of \<open>Error\<close> is thrown it returns \<open>Error: \<close>
  followed by the message.
\<close>

theorem unknown_error_reply:
  "(final (callGenerateText ext (pushUser s u)) = Inl (NonError v) \<longrightarrow>
      snd (sendMessage ext s u) = ''An unknown error occurred.''
      \<and> \<not> prefix ''Error: '' (snd (sendMessage ext s u)))
   \<and> (final (callGenerateText ext (pushUser s u)) = Inl (Error message) \<longrightarrow>
      snd (sendMessage ext s u) = ''Error: '' @ message
      \<and> prefix ''Error: '' (snd (sendMessage ext s u)))"
  by (simp add: sendMessage_def Let_def)

text \<open>C10 at an endpoint that throws the number 42, and at one that throws an \<open>Error\<close>.\<close>

theorem unknown_error_reply_witness:
  "snd (sendMessage (testExt servingGateway (failingEndpoint (NonError ''42'')))
          (newChatCLI (testExt servingGateway (failingEndpoint (NonError ''42'')))) ''hi'')
     = ''An unknown error occurred.''
   \<and> snd (sendMessage (testExt servingGateway (failingEndpoint (Error ''fetch failed'')))
          (newChatCLI (testExt servingGateway (failingEndpoint (Error ''fetch failed'')))) ''hi'')
     = ''Error: fetch failed''"
  using unknown_error_reply
          [of "testExt servingGateway (failingEndpoint (NonError ''42''))"
              "newChatCLI (testExt servingGateway (failingEndpoint (NonError ''42'')))"
              "''hi''" "''42''"]
        unknown_error_reply
          [of "testExt servingGateway (failingEndpoint (Error ''fetch failed''))"
              "newChatCLI (testExt servingGateway (failingEndpoint (Error ''fetch failed'')))"
              "''hi''" _ "''fetch failed''"]
        failing_first_call
  by simp

text \<open>
  C2 (as amended). When the generation call throws, \<open>sendMessage\<close> catches it and
  returns a string in place of the reply: \<open>Error: \<close> followed by the message for an
  instance of \<open>Error\<close>, and the fixed text \<open>An unknown error occurred.\<close> for any
  other value. The user message stays in the history, and the main loop prints the
  string and goes on to serve the remaining lines.
\<close>

theorem failed_generation_is_caught:
  assumes "final (callGenerateText ext (pushUser s u)) = Inl e"
  shows "snd (sendMessage ext s u)
           = (case e of Error message \<Rightarrow> ''Error: '' @ message
                      | NonError v \<Rightarrow> ''An unknown error occurred.'')
       \<and> conversationHistory (fst (sendMessage ext s u))
           = conversationHistory s @ [\<lparr>role = User, content = Text u\<rparr>]
       \<and> (getUserInput s0 ''You: '' line = (s, u) \<and> u \<noteq> []
            \<and> toLowerCase u \<noteq> ''exit'' \<and> toLowerCase u \<noteq> ''quit'' \<longrightarrow>
           start_loop ext s0 (line # rest)
             = start_loop ext
                 (emit (fst (sendMessage ext s u))
                    [ConsoleLog (''\<newline>Assistant: '' @ snd (sendMessage ext s u) @ ''\<newline>'')])
                 rest)"
proof (intro conjI impI)
  show "snd (sendMessage ext s u)
           = (case e of Error message \<Rightarrow> ''Error: '' @ message
                      | NonError v \<Rightarrow> ''An unknown error occurred.'')"
    using assms by (simp add: sendMessage_def Let_def)
  show "conversationHistory (fst (sendMessage ext s u))
           = conversationHistory s @ [\<lparr>role = User, content = Text u\<rparr>]"
    using assms by (simp add: sendMessage_def Let_def)
next
  assume a: "getUserInput s0 ''You: '' line = (s, u) \<and> u \<noteq> []
            \<and> toLowerCase u \<noteq> ''exit'' \<and> toLowerCase u \<noteq> ''quit''"
  then have s: "s = emit s0 [Question ''You: '']" and u: "u = trim line"
    by (simp_all add: getUserInput_def)
  from a have "trim line \<noteq> []" "toLowerCase (trim line) \<noteq> ''exit''"
      "toLowerCase (trim line) \<noteq> ''quit''"
    by (simp_all add: u)
  from start_iteration_send [OF this, of ext s0]
  show "start_loop ext s0 (line # rest)
             = start_loop ext
                 (emit (fst (sendMessage ext s u))
                    [ConsoleLog (''\<newline>Assistant: '' @ snd (sendMessage ext s u) @ ''\<newline>'')])
                 rest"
    by (simp add: s u)
qed

text \<open>The amended C2 at an endpoint that throws \<open>Error('fetch failed')\<close>.\<close>

theorem failed_generation_is_caught_witness:
  "snd (sendMessage (testExt servingGateway (failingEndpoint (Error ''fetch failed'')))
          (newChatCLI (testExt servingGateway (failingEndpoint (Error ''fetch failed'')))) ''hi'')
     = ''Error: fetch failed''
   \<and> conversationHistory
        (fst (sendMessage (testExt servingGateway (failingEndpoint (Error ''fetch failed'')))
          (newChatCLI (testExt servingGateway (failingEndpoint (Error ''fetch failed'')))) ''hi''))
     = [\<lparr>role = User, content = Text ''hi''\<rparr>]"
  using failed_generation_is_caught [OF failing_first_call, of "Error ''fetch failed''" "''hi''"]
  by (simp add: newChatCLI_def)

text \<open>
  C2 as the spec states it fails: when the endpoint throws a value that is not an
  \<open>Error\<close>, the string returned carries no prefix that sets it apart from a reply.
\<close>

theorem error_prefix_counterexample:
  "snd (sendMessage (testExt servingGateway (failingEndpoint (NonError ''42'')))
          (newChatCLI (testExt servingGateway (failingEndpoint (NonError ''42'')))) ''hi'')
     = ''An unknown error occurred.''
   \<and> \<not> prefix ''Error: ''
         (snd (sendMessage (testExt servingGateway (failingEndpoint (NonError ''42'')))
            (newChatCLI (testExt servingGateway (failingEndpoint (NonError ''42'')))) ''hi''))"
  by (simp add: sendMessage_def Let_def fixture_defs)

section \<open>The tool gateway\<close>

text \<open>
  C5 (as amended). When the initialisation of the tool gateway throws, started with the
  empty mapping the constructor leaves, the value is caught; the console gets the line
  \<open>Warning: Could not connect to Civic MCP server.\<close>, followed by the line
  \<open>Error: \<close> with the message when the value is an instance of \<open>Error\<close> (and by no
  such line otherwise); the tool mapping is empty; and the session goes on: the next
  request carries the empty mapping, and a turn whose generation call produces a text
  returns that text.
\<close>

theorem gateway_failure_is_not_fatal:
  assumes "initializeFails ext e" and "mcpTools s = []"
  shows "consoleOutput (events (initializeMCP ext s))
           = consoleOutput (events s)
             @ [''Connecting to Civic MCP server...'',
                ''Warning: Could not connect to Civic MCP server.'']
             @ (case e of Error message \<Rightarrow> [''Error: '' @ message @ ''\<newline>''] | NonError v \<Rightarrow> [])
             @ [''Continuing without MCP tools...\<newline>'']
       \<and> mcpTools (initializeMCP ext s) = []
       \<and> tools (mkRequest (pushUser (initializeMCP ext s) u)) = []
       \<and> (final (callGenerateText ext (pushUser (initializeMCP ext s) u)) = Inr r
            \<and> resultText r \<noteq> [] \<longrightarrow>
          snd (sendMessage ext (initializeMCP ext s) u) = resultText r)"
proof (intro conjI impI)
  show "consoleOutput (events (initializeMCP ext s))
           = consoleOutput (events s)
             @ [''Connecting to Civic MCP server...'',
                ''Warning: Could not connect to Civic MCP server.'']
             @ (case e of Error message \<Rightarrow> [''Error: '' @ message @ ''\<newline>''] | NonError v \<Rightarrow> [])
             @ [''Continuing without MCP tools...\<newline>'']"
    using assms(1) by (rule initializeMCP_fails(1))
  show t: "mcpTools (initializeMCP ext s) = []"
    using initializeMCP_fails(2) [OF assms(1), of s] assms(2) by simp
  show "tools (mkRequest (pushUser (initializeMCP ext s) u)) = []"
    by (simp add: mkRequest_def t)
next
  assume "final (callGenerateText ext (pushUser (initializeMCP ext s) u)) = Inr r
            \<and> resultText r \<noteq> []"
  then show "snd (sendMessage ext (initializeMCP ext s) u) = resultText r"
    by (simp add: sendMessage_def Let_def)
qed

text \<open>The amended C5 at a gateway that throws \<open>Error('ECONNREFUSED')\<close>.\<close>

theorem gateway_failure_is_not_fatal_witness:
  "consoleOutput (events (initializeMCP
      (testExt (failingGateway (Error ''ECONNREFUSED'')) echoEndpoint)
      (newChatCLI (testExt (failingGateway (Error ''ECONNREFUSED'')) echoEndpoint))))
     = [''Connecting to Civic MCP server...'',
        ''Warning: Could not connect to Civic MCP server.'',
        ''Error: ECONNREFUSED\<newline>'',
        ''Continuing without MCP tools...\<newline>'']
   \<and> mcpTools (initializeMCP
      (testExt (failingGateway (Error ''ECONNREFUSED'')) echoEndpoint)
      (newChatCLI (testExt (failingGateway (Error ''ECONNREFUSED'')) echoEndpoint))) = []
   \<and> snd (sendMessage (testExt (failingGateway (Error ''ECONNREFUSED'')) echoEndpoint)
      (initializeMCP
        (testExt (failingGateway (Error ''ECONNREFUSED'')) echoEndpoint)
        (newChatCLI (testExt (failingGateway (Error ''ECONNREFUSED'')) echoEndpoint))) ''hello'')
     = ''ok''"
proof -
  let ?E = "testExt (failingGateway (Error ''ECONNREFUSED'')) echoEndpoint"
  have f: "initializeFails ?E (Error ''ECONNREFUSED'')"
    by (rule refused_fails)
  have n: "mcpTools (newChatCLI ?E) = []" "events (newChatCLI ?E) = []"
    by (simp_all add: newChatCLI_def)
  note g = gateway_failure_is_not_fatal [OF f n(1), of "''hello''"
             "\<lparr>resultText = ''ok'',
               responseMessages = conversationHistory (initializeMCP ?E (newChatCLI ?E))
                  @ [\<lparr>role = User, content = Text ''hello''\<rparr>,
                     \<lparr>role = Assistant, content = Text ''ok''\<rparr>]\<rparr>"]
  from g have 1: "consoleOutput (events (initializeMCP ?E (newChatCLI ?E)))
     = [''Connecting to Civic MCP server...'',
        ''Warning: Could not connect to Civic MCP server.'',
        ''Error: ECONNREFUSED\<newline>'',
        ''Continuing without MCP tools...\<newline>'']"
    by (simp add: n)
  from g have 2: "mcpTools (initializeMCP ?E (newChatCLI ?E)) = []"
    by (elim conjE)
  from g echo_after_init [of "failingGateway (Error ''ECONNREFUSED'')"
                             "initializeMCP ?E (newChatCLI ?E)" "''hello''"]
  have 3: "snd (sendMessage ?E (initializeMCP ?E (newChatCLI ?E)) ''hello'') = ''ok''"
    by simp
  from 1 2 3 show ?thesis by (intro conjI)
qed

text \<open>
  C5 as the spec states it fails: when the gateway throws a value that is not an
  \<open>Error\<close>, here the text ECONNREFUSED, nothing written to the console contains it.
\<close>

theorem unnamed_gateway_failure_counterexample:
  "initializeFails (testExt (failingGateway (NonError ''ECONNREFUSED'')) echoEndpoint)
     (NonError ''ECONNREFUSED'')
   \<and> consoleOutput (events (initializeMCP
        (testExt (failingGateway (NonError ''ECONNREFUSED'')) echoEndpoint)
        (newChatCLI (testExt (failingGateway (NonError ''ECONNREFUSED'')) echoEndpoint))))
     = [''Connecting to Civic MCP server...'',
        ''Warning: Could not connect to Civic MCP server.'',
        ''Continuing without MCP tools...\<newline>'']
   \<and> \<not> logged ''ECONNREFUSED''
        (initializeMCP
          (testExt (failingGateway (NonError ''ECONNREFUSED'')) echoEndpoint)
          (newChatCLI (testExt (failingGateway (NonError ''ECONNREFUSED'')) echoEndpoint)))"
proof -
  let ?E = "testExt (failingGateway (NonError ''ECONNREFUSED'')) echoEndpoint"
  have f: "initializeFails ?E (NonError ''ECONNREFUSED'')"
    by (rule refused_fails)
  have n: "events (newChatCLI ?E) = []"
    by (simp add: newChatCLI_def)
  have c: "consoleOutput (events (initializeMCP ?E (newChatCLI ?E)))
     = [''Connecting to Civic MCP server...'',
        ''Warning: Could not connect to Civic MCP server.'',
        ''Continuing without MCP tools...\<newline>'']"
    using initializeMCP_fails(1) [OF f, of "newChatCLI ?E"] by (simp add: n)
  have "\<not> list_ex (sublist ''ECONNREFUSED'')
         [''Connecting to Civic MCP server...'',
          ''Warning: Could not connect to Civic MCP server.'',
          ''Continuing without MCP tools...\<newline>'']"
    by code_simp
  then have l: "\<not> logged ''ECONNREFUSED'' (initializeMCP ?E (newChatCLI ?E))"
    unfolding logged_def c .
  from f c l show ?thesis by (intro conjI)
qed


text \<open>
  C9. The tool mapping is empty after construction and is assigned only by
  \<open>initializeMCP\<close>: to the tools discovered, or left empty when the gateway throws.
  \<open>sendMessage\<close>, a pass of the main loop (shutdown included) and the whole loop leave
  it as it is, and the mapping at the end of any run is the empty one or the one
  \<open>initializeMCP\<close> assigned.
\<close>

theorem tool_mapping_is_frozen:
  "mcpTools (newChatCLI ext) = []
   \<and> mcpTools (initializeMCP ext (newChatCLI ext))
       = (case createMCPClient ext (mcpTransport ext) of
            Inl e \<Rightarrow> []
          | Inr client \<Rightarrow> (case clientTools ext client of Inl e \<Rightarrow> [] | Inr ts \<Rightarrow> ts))
   \<and> mcpTools (fst (sendMessage ext s u)) = mcpTools s
   \<and> mcpTools (fst (start_iteration ext s line)) = mcpTools s
   \<and> mcpTools (fst (start_loop ext s answers)) = mcpTools s
   \<and> (mcpTools (fst (main ext answers)) = []
        \<or> mcpTools (fst (main ext answers)) = mcpTools (initializeMCP ext (newChatCLI ext)))"
proof (intro conjI)
  show n: "mcpTools (newChatCLI ext) = []"
    by (simp add: newChatCLI_def)
  show "mcpTools (initializeMCP ext (newChatCLI ext))
       = (case createMCPClient ext (mcpTransport ext) of
            Inl e \<Rightarrow> []
          | Inr client \<Rightarrow> (case clientTools ext client of Inl e \<Rightarrow> [] | Inr ts \<Rightarrow> ts))"
    by (simp add: mcpTools_initializeMCP n split: sum.split)
  show "mcpTools (fst (sendMessage ext s u)) = mcpTools s" by simp
  show "mcpTools (fst (start_iteration ext s line)) = mcpTools s" by simp
  show "mcpTools (fst (start_loop ext s answers)) = mcpTools s" by simp
  show "mcpTools (fst (main ext answers)) = []
        \<or> mcpTools (fst (main ext answers)) = mcpTools (initializeMCP ext (newChatCLI ext))"
    using mcpTools_start [of ext "newChatCLI ext" answers] by (simp add: main_def n)
qed

text \<open>C9 at a gateway that serves one tool, across a turn and the shutdown.\<close>

theorem tool_mapping_is_frozen_witness:
  "mcpTools (initializeMCP (testExt servingGateway echoEndpoint)
               (newChatCLI (testExt servingGateway echoEndpoint)))
     = [(''search'', ToolHandle ''search'')]
   \<and> mcpTools (fst (start_loop (testExt servingGateway echoEndpoint)
               (initializeMCP (testExt servingGateway echoEndpoint)
                  (newChatCLI (testExt servingGateway echoEndpoint)))
               [''hi'', ''quit'']))
     = [(''search'', ToolHandle ''search'')]"
proof -
  let ?E = "testExt servingGateway echoEndpoint"
  let ?S = "initializeMCP ?E (newChatCLI ?E)"
  note frozen = tool_mapping_is_frozen [of ?E ?S "''hi''" "''hi''" "[''hi'', ''quit'']"]
  from frozen have init: "mcpTools ?S
       = (case createMCPClient ?E (mcpTransport ?E) of
            Inl e \<Rightarrow> []
          | Inr client \<Rightarrow> (case clientTools ?E client of Inl e \<Rightarrow> [] | Inr ts \<Rightarrow> ts))"
    by (elim conjE)
  from frozen have loop: "mcpTools (fst (start_loop ?E ?S [''hi'', ''quit''])) = mcpTools ?S"
    by (elim conjE)
  have "(case createMCPClient ?E (mcpTransport ?E) of
            Inl e \<Rightarrow> []
          | Inr client \<Rightarrow> (case clientTools ?E client of Inl e \<Rightarrow> [] | Inr ts \<Rightarrow> ts))
        = [(''search'', ToolHandle ''search'')]"
    by (simp add: testExt_def servingGateway_def)
  with init have "mcpTools ?S = [(''search'', ToolHandle ''search'')]"
    by (rule trans)
  with loop show ?thesis by (simp only: simp_thms)
qed


section \<open>The step budget\<close>





section \<open>Notifications of a step\<close>

text \<open>
  What debug mode adds to the line of a tool call of the library, which has no
  \<open>args\<close>: the line \<open>[Args: undefined]\<close>, whatever the arguments of the call.
\<close>

lemma args_of_a_library_call:
  assumes "args call = None"
  shows "consoleOutput (onToolCall True call)
           = [''\<newline>[Using tool: '' @ toolName call @ '']'', ''[Args: undefined]'']"
  using assms by (simp add: onToolCall_def stringifyArgs_def)

text \<open>
  C7 (as amended). For every step the generation call reports: each proposed tool call
  writes a line naming the tool, first, and outside debug mode nothing else; each tool
  result flagged as errored writes \<open>[Tool failed]\<close>, and the serialised payload in debug
  mode only; a result that is not flagged writes \<open>[Tool completed successfully]\<close> in
  debug mode only and nothing otherwise. The lines of a step are those of its calls,
  then those of its results, and a turn writes the lines of its steps in order.
\<close>

theorem step_notifications:
  "consoleOutput (onToolCall False call) = [''\<newline>[Using tool: '' @ toolName call @ '']'']
   \<and> take 1 (consoleOutput (onToolCall dbg call))
     = [''\<newline>[Using tool: '' @ toolName call @ '']'']
   \<and> consoleOutput (onToolResult dbg result)
     = (if resultIsError result
        then ''[Tool failed]''
             # (if dbg then [''[Error: '' @ stringifyOutput result @ '']''] else [])
        else if dbg then [''[Tool completed successfully]''] else [])
   \<and> consoleOutput (onStepFinish dbg st)
     = concat (map (\<lambda>call. consoleOutput (onToolCall dbg call)) (toolCalls st))
       @ concat (map (\<lambda>result. consoleOutput (onToolResult dbg result)) (toolResults st))
   \<and> consoleOutput (events (fst (sendMessage ext s u)))
     = consoleOutput (events s)
       @ concat (map (\<lambda>st. consoleOutput (onStepFinish (debugMode s) st))
                   (steps (callGenerateText ext (pushUser s u))))"
proof (intro conjI)
  show "consoleOutput (onToolCall False call)
          = [''\<newline>[Using tool: '' @ toolName call @ '']'']"
    by (simp add: onToolCall_def)
  show "take 1 (consoleOutput (onToolCall dbg call))
          = [''\<newline>[Using tool: '' @ toolName call @ '']'']"
    by (simp add: onToolCall_def)
  show "consoleOutput (onToolResult dbg result)
     = (if resultIsError result
        then ''[Tool failed]''
             # (if dbg then [''[Error: '' @ stringifyOutput result @ '']''] else [])
        else if dbg then [''[Tool completed successfully]''] else [])"
    by (simp add: onToolResult_def)
  have cc: "consoleOutput (concat (map f xs)) = concat (map (\<lambda>x. consoleOutput (f x)) xs)"
    for f :: "'a \<Rightarrow> event list" and xs
    by (induction xs) simp_all
  show "consoleOutput (onStepFinish dbg st)
     = concat (map (\<lambda>call. consoleOutput (onToolCall dbg call)) (toolCalls st))
       @ concat (map (\<lambda>result. consoleOutput (onToolResult dbg result)) (toolResults st))"
    by (simp add: onStepFinish_def cc)
  show "consoleOutput (events (fst (sendMessage ext s u)))
     = consoleOutput (events s)
       @ concat (map (\<lambda>st. consoleOutput (onStepFinish (debugMode s) st))
                   (steps (callGenerateText ext (pushUser s u))))"
    by (simp add: sendMessage_def Let_def cc split: sum.split)
qed

text \<open>
  The amended C7 at a call of \<open>search\<close> as the library delivers it, an errored result
  and a successful one.
\<close>

theorem step_notifications_witness:
  "consoleOutput (onToolCall False \<lparr>toolName = ''search'', callInput = ''{}'', args = None\<rparr>)
     = [''\<newline>[Using tool: search]'']
   \<and> take 1 (consoleOutput
         (onToolCall True \<lparr>toolName = ''search'', callInput = ''{}'', args = None\<rparr>))
     = [''\<newline>[Using tool: search]'']
   \<and> consoleOutput (onToolResult False \<lparr>resultOutput = Some \<lparr>isError = True, outputJson = ''{}''\<rparr>\<rparr>)
     = [''[Tool failed]'']
   \<and> consoleOutput (onToolResult True \<lparr>resultOutput = Some \<lparr>isError = True, outputJson = ''{}''\<rparr>\<rparr>)
     = [''[Tool failed]'', ''[Error: {}]'']
   \<and> consoleOutput (onToolResult False
         (okTool \<lparr>toolName = ''search'', callInput = ''{}'', args = None\<rparr>)) = []
   \<and> consoleOutput (onToolResult True
         (okTool \<lparr>toolName = ''search'', callInput = ''{}'', args = None\<rparr>))
     = [''[Tool completed successfully]'']"
  using step_notifications [of "\<lparr>toolName = ''search'', callInput = ''{}'', args = None\<rparr>" False
           "\<lparr>resultOutput = Some \<lparr>isError = True, outputJson = ''{}''\<rparr>\<rparr>"]
        step_notifications [of "\<lparr>toolName = ''search'', callInput = ''{}'', args = None\<rparr>" True
           "\<lparr>resultOutput = Some \<lparr>isError = True, outputJson = ''{}''\<rparr>\<rparr>"]
        step_notifications [of _ False
           "okTool \<lparr>toolName = ''search'', callInput = ''{}'', args = None\<rparr>"]
        step_notifications [of _ True
           "okTool \<lparr>toolName = ''search'', callInput = ''{}'', args = None\<rparr>"]
  by (simp add: resultIsError_def stringifyOutput_def okTool_def)

text \<open>
  C7 as the spec states it fails: outside debug mode a step with one successful tool
  result writes nothing.
\<close>

theorem silent_success_counterexample:
  "resultIsError \<lparr>resultOutput = Some \<lparr>isError = False, outputJson = ''{}''\<rparr>\<rparr> = False
   \<and> onStepFinish False
        \<lparr>toolCalls = [],
         toolResults = [\<lparr>resultOutput = Some \<lparr>isError = False, outputJson = ''{}''\<rparr>\<rparr>]\<rparr>
      = []"
  by (simp add: onStepFinish_def onToolResult_def resultIsError_def log_def)

end
